theory Spec2Isabelle
  imports Complex_Main "HOL-Library.Monad_Syntax"
begin

section \<open>The sailboat simulator of libraries/SITL/SIM\_Sailboat.cpp\<close>

text \<open>
  The source file is present in two variants. The first one (with
  \<open>get_heel_angular_acceleration\<close>, air density in the lift equation and a roll rate
  integrated from the heel torque) keeps the names of the source. Where the second one
  (quasi units, heel angle written directly into the attitude) differs, its definitions
  carry the suffix \<open>_alt\<close>. \<open>get_turn_circle\<close>, \<open>get_yaw_rate\<close>, \<open>get_lat_accel\<close>
  and \<open>update_wave\<close> are the same text in both and are embedded once.

  Numbers: a \<open>float\<close> of the source is a \<^typ>\<open>real\<close> here and the arithmetic is
  exact; rounding, infinities and NaN are outside the model. A division by a quantity
  that can be zero is \<open>fdiv\<close>: with a zero divisor it has no finite value and the
  result is \<open>None\<close>, and so is a failed \<open>assert\<close>. Divisions by nonzero constants are
  plain divisions.
\<close>

subsection \<open>Vectors\<close>

record Vector3f =
  vx :: real
  vy :: real
  vz :: real

definition Vector3f_default :: Vector3f where
  \<comment> \<open>\<open>Vector3f v;\<close> the vector class of AP\_Math is not among the sources at hand;
      its default constructor is taken to set the three components to zero, which the
      tide code of \<open>update\<close> relies on.\<close>
  "Vector3f_default = \<lparr>vx = 0, vy = 0, vz = 0\<rparr>"

definition vec_add :: "Vector3f \<Rightarrow> Vector3f \<Rightarrow> Vector3f" where
  "vec_add a b = \<lparr>vx = vx a + vx b, vy = vy a + vy b, vz = vz a + vz b\<rparr>"

definition vec_sub :: "Vector3f \<Rightarrow> Vector3f \<Rightarrow> Vector3f" where
  "vec_sub a b = \<lparr>vx = vx a - vx b, vy = vy a - vy b, vz = vz a - vz b\<rparr>"

definition vec_scale :: "Vector3f \<Rightarrow> real \<Rightarrow> Vector3f" where
  "vec_scale a k = \<lparr>vx = vx a * k, vy = vy a * k, vz = vz a * k\<rparr>"

subsection \<open>The helpers of AP\_Math and of the C library\<close>

definition fdiv :: "real \<Rightarrow> real \<Rightarrow> real option" where
  \<comment> \<open>\<open>a / b\<close> on floats, as far as it has a finite value\<close>
  "fdiv a b = (if b = 0 then None else Some (a / b))"

definition radians :: "real \<Rightarrow> real" where
  "radians deg = deg * pi / 180"

definition degrees :: "real \<Rightarrow> real" where
  "degrees rad = rad * 180 / pi"

definition sq :: "real \<Rightarrow> real" where
  "sq v = v * v"

definition M_2PI :: real where
  "M_2PI = 2 * pi"

definition GRAVITY_MSS :: real where
  "GRAVITY_MSS = 9.80665"

definition signum :: "real \<Rightarrow> real" where
  \<comment> \<open>Modelled from the spec: \<open>signum\<close> of AP\_Math is the sign of its argument
      (``lift sign is reapplied as the sign of the signed angle'').\<close>
  "signum v = sgn v"

definition constrain_float :: "real \<Rightarrow> real \<Rightarrow> real \<Rightarrow> real" where
  \<comment> \<open>Modelled from the spec: \<open>constrain_float\<close> of AP\_Math clamps to the range
      (``linearly mapped \<dots> clamped to that range'').\<close>
  "constrain_float amt low high = (if amt < low then low else if amt > high then high else amt)"

definition constrain_int16 :: "int \<Rightarrow> int \<Rightarrow> int \<Rightarrow> int" where
  \<comment> \<open>Modelled from the spec: the integer clamp of AP\_Math.\<close>
  "constrain_int16 amt low high = (if amt < low then low else if amt > high then high else amt)"

definition safe_sqrt :: "real \<Rightarrow> real" where
  \<comment> \<open>Modelled from the spec: the square root of AP\_Math that gives 0 for a negative
      argument (``speed \<ge> 0'').\<close>
  "safe_sqrt v = (if v < 0 then 0 else sqrt v)"

definition wrap_360 :: "real \<Rightarrow> real" where
  "wrap_360 angle = angle - 360 * of_int \<lfloor>angle / 360\<rfloor>"

definition wrap_180 :: "real \<Rightarrow> real" where
  \<comment> \<open>Modelled from the spec: \<open>wrap_180\<close> of AP\_Math normalises an angle in degrees
      to [-180, 180].\<close>
  "wrap_180 angle = (let res = wrap_360 angle in if res > 180 then res - 360 else res)"

definition wrap_2PI :: "real \<Rightarrow> real" where
  \<comment> \<open>Modelled from the spec: \<open>wrap_2PI\<close> of AP\_Math wraps an angle in radians into
      [0, 2\<pi>).\<close>
  "wrap_2PI radian = radian - M_2PI * of_int \<lfloor>radian / M_2PI\<rfloor>"

definition wrap_PI :: "real \<Rightarrow> real" where
  \<comment> \<open>Modelled from the spec: the radian counterpart of \<open>wrap_180\<close>.\<close>
  "wrap_PI radian = (let res = wrap_2PI radian in if res > pi then res - M_2PI else res)"

definition atan2 :: "real \<Rightarrow> real \<Rightarrow> real" where
  \<comment> \<open>\<open>atan2(y, x)\<close> of the C library\<close>
  "atan2 b a =
     (if 0 < a then arctan (b / a)
      else if a < 0 \<and> 0 \<le> b then arctan (b / a) + pi
      else if a < 0 then arctan (b / a) - pi
      else if 0 < b then pi / 2
      else if b < 0 then - (pi / 2)
      else 0)"

fun interpolate_from :: "real \<Rightarrow> real \<times> real \<Rightarrow> (real \<times> real) list \<Rightarrow> real" where
  "interpolate_from a (x0, y0) [] = y0"
| "interpolate_from a (x0, y0) ((x1, y1) # rest) =
     (if a < x1
      then (if a \<le> x0 then y0 else y0 + (a - x0) * (y1 - y0) / (x1 - x0))
      else interpolate_from a (x1, y1) rest)"

definition linear_interpolate :: "real \<Rightarrow> (real \<times> real) list \<Rightarrow> real" where
  \<comment> \<open>Modelled from the spec: \<open>linear_interpolate(angle, curve, size)\<close> is not under
      src. ``Piecewise-linear interpolation between the two bracketing breakpoints;
      below the first breakpoint \<dots> use table[0] directly; at or above the last
      breakpoint, return the last tabulated value.''\<close>
  "linear_interpolate a curve =
     (case curve of [] \<Rightarrow> 0 | p # rest \<Rightarrow> interpolate_from a p rest)"

subsection \<open>The coefficient curves\<close>

definition CL_curve :: "(real \<times> real) list" where
  "CL_curve =
     [(0, 0), (10, 0.5), (20, 1), (30, 1.1), (40, 0.95), (50, 0.75), (60, 0.6), (70, 0.4),
      (80, 0.2), (90, 0), (100, -0.2), (110, -0.4), (120, -0.6), (130, -0.75),
      (140, -0.95), (150, -1.1), (160, -1), (170, -0.5)]"

definition CD_curve :: "(real \<times> real) list" where
  "CD_curve =
     [(0, 0.1), (10, 0.1), (20, 0.2), (30, 0.4), (40, 0.8), (50, 1.2), (60, 1.5), (70, 1.7),
      (80, 1.9), (90, 1.95), (100, 1.9), (110, 1.7), (120, 1.5), (130, 1.2), (140, 0.8),
      (150, 0.4), (160, 0.2), (170, 0.1)]"

subsection \<open>Configuration, inputs and the vehicle\<close>

datatype Sail_type = mainsail_with_sheet | directly_actuated_wing | unknown_sail_type

record SITL_params =
  \<comment> \<open>the parameters read through \<open>sitl->\<close>, and the arming state read through
      \<open>hal.util->get_soft_armed()\<close>\<close>
  wave_enable :: int
  wave_direction :: real
  wave_speed :: real
  wave_length :: real
  wave_amp :: real
  tide_direction :: real
  tide_speed :: real
  sail_type :: Sail_type
  soft_armed :: bool

record sitl_input =
  servos :: "nat \<Rightarrow> int"

definition STEERING_SERVO_CH :: nat where "STEERING_SERVO_CH = 0"
definition MAINSAIL_SERVO_CH :: nat where "MAINSAIL_SERVO_CH = 3"
definition THROTTLE_SERVO_CH :: nat where "THROTTLE_SERVO_CH = 2"
definition DIRECT_WING_SERVO_CH :: nat where "DIRECT_WING_SERVO_CH = 4"

definition WAVE_ANGLE_GAIN :: real where "WAVE_ANGLE_GAIN = 1"
definition WAVE_HEAVE_GAIN :: real where "WAVE_HEAVE_GAIN = 1"

text \<open>
  The object: the members of \<open>Sailboat\<close> and those of its base class \<open>Aircraft\<close> that
  the file reads or writes. \<open>'m\<close> is the attitude matrix type \<open>Matrix3f\<close>, \<open>'o\<close> the
  members of \<open>Aircraft\<close> that only the base class touches.
\<close>

record ('m, 'o) Sailboat =
  steering_angle_max :: real
  turning_circle :: real
  sail_area :: real
  motor_connected :: bool
  mass :: real
  frame_time_us :: real
  dcm :: 'm
  gyro :: Vector3f
  accel_body :: Vector3f
  velocity_ef :: Vector3f
  velocity_ef_water :: Vector3f
  wind_ef :: Vector3f
  position :: Vector3f
  rpm_0 :: real
  airspeed_pitot :: real
  wave_gyro :: Vector3f
  wave_heave :: real
  wave_phase :: real
  aircraft_rest :: 'o

text \<open>
  What the file calls and the sources at hand do not hold is a parameter: the tests
  \<open>is_zero\<close> and \<open>is_negative\<close> of AP\_Math, the operations of \<open>Matrix3f\<close> and the
  methods of the base class.
\<close>

record ('m, 'o) collaborators =
  is_zero :: "real \<Rightarrow> bool"
  is_negative :: "real \<Rightarrow> bool"
  to_euler :: "'m \<Rightarrow> real \<times> real \<times> real"
  from_euler :: "real \<Rightarrow> real \<Rightarrow> real \<Rightarrow> 'm"
  rotate :: "'m \<Rightarrow> Vector3f \<Rightarrow> 'm"
  normalize :: "'m \<Rightarrow> 'm"
  mul :: "'m \<Rightarrow> Vector3f \<Rightarrow> Vector3f"
  mul_transpose :: "'m \<Rightarrow> Vector3f \<Rightarrow> Vector3f"
  transposed :: "'m \<Rightarrow> 'm"
  update_wind :: "sitl_input \<Rightarrow> ('m, 'o) Sailboat \<Rightarrow> ('m, 'o) Sailboat"
  update_position :: "('m, 'o) Sailboat \<Rightarrow> ('m, 'o) Sailboat"
  time_advance :: "('m, 'o) Sailboat \<Rightarrow> ('m, 'o) Sailboat"
  update_mag_field_bf :: "('m, 'o) Sailboat \<Rightarrow> ('m, 'o) Sailboat"

definition is_zero_exact :: "real \<Rightarrow> bool" where
  \<comment> \<open>Modelled from the spec: \<open>is_zero\<close> of AP\_Math, read as the test for ``exactly
      zero''.\<close>
  "is_zero_exact v \<longleftrightarrow> v = 0"

definition is_negative_exact :: "real \<Rightarrow> bool" where
  \<comment> \<open>Modelled from the spec: \<open>is_negative\<close> of AP\_Math, read as the test \<open>v < 0\<close>.\<close>
  "is_negative_exact v \<longleftrightarrow> v < 0"

subsection \<open>Steering kinematics\<close>

definition get_turn_circle ::
  "('m, 'o) collaborators \<Rightarrow> ('m, 'o) Sailboat \<Rightarrow> real \<Rightarrow> real option" where
  "get_turn_circle c this steering =
     (if is_zero c steering then Some 0
      else fdiv (turning_circle this * sin (radians (steering_angle_max this)))
                (sin (radians (steering * steering_angle_max this))))"

definition get_yaw_rate ::
  "('m, 'o) collaborators \<Rightarrow> ('m, 'o) Sailboat \<Rightarrow> real \<Rightarrow> real \<Rightarrow> real option" where
  "get_yaw_rate c this steering speed =
     (if is_zero c steering \<or> is_zero c speed then Some 0
      else do {
        d_m \<leftarrow> get_turn_circle c this steering;
        let c_m = pi * d_m;
        t_s \<leftarrow> fdiv c_m speed;
        fdiv 360 t_s
      })"

definition get_lat_accel ::
  "('m, 'o) collaborators \<Rightarrow> ('m, 'o) Sailboat \<Rightarrow> real \<Rightarrow> real \<Rightarrow> real option" where
  "get_lat_accel c this steering speed =
     do {
       yaw_rate \<leftarrow> get_yaw_rate c this steering speed;
       let accel = radians yaw_rate * speed;
       Some accel
     }"

subsection \<open>Lift and drag\<close>

definition calc_lift_and_drag ::
  "('m, 'o) Sailboat \<Rightarrow> real \<Rightarrow> real \<Rightarrow> real \<times> real" where
  \<comment> \<open>first variant; the result is the pair of the out-parameters \<open>(lift, drag)\<close>\<close>
  "calc_lift_and_drag this wind_speed_m_per_s angle_of_attack_deg =
     (let signed_aoa_deg = wrap_180 angle_of_attack_deg;
          abs_aoa_deg = \<bar>signed_aoa_deg\<bar>;
          cl = linear_interpolate abs_aoa_deg CL_curve;
          cd = linear_interpolate abs_aoa_deg CD_curve;
          air_density_kg_per_m3 = 1.225;
          common_coefficient =
            1 / 2 * air_density_kg_per_m3 * sq wind_speed_m_per_s * sail_area this;
          drag = cd * common_coefficient;
          lift = cl * common_coefficient * signum signed_aoa_deg
      in (lift, drag))"

definition calc_lift_and_drag_alt ::
  "('m, 'o) Sailboat \<Rightarrow> real \<Rightarrow> real \<Rightarrow> real \<times> real" where
  \<comment> \<open>second variant: quasi units, no air density\<close>
  "calc_lift_and_drag_alt this wind_speed angle_of_attack_deg =
     (let wrapped_aoa_deg = wrap_180 angle_of_attack_deg;
          abs_aoa_deg = \<bar>wrapped_aoa_deg\<bar>;
          cl = linear_interpolate abs_aoa_deg CL_curve;
          cd = linear_interpolate abs_aoa_deg CD_curve;
          f_max = wind_speed * wind_speed * sail_area this;
          drag = cd * f_max;
          lift = cl * f_max * signum wrapped_aoa_deg
      in (lift, drag))"

subsection \<open>Waves\<close>

definition update_wave ::
  "('m, 'o) collaborators \<Rightarrow> SITL_params \<Rightarrow> real \<Rightarrow> ('m, 'o) Sailboat \<Rightarrow>
   ('m, 'o) Sailboat option" where
  "update_wave c sitl delta_time this =
     (let wave_heading = wave_direction sitl;
          wave_amplitude = wave_amp sitl;
          (r, p, y) = to_euler c (dcm this)
      in if wave_enable sitl = 0 \<or> \<not> soft_armed sitl \<or> is_zero c wave_amplitude
         then Some (this
           \<lparr>wave_gyro := vec_scale \<lparr>vx = - r, vy = - p, vz = 0\<rparr> WAVE_ANGLE_GAIN,
            wave_heave := - vz (velocity_ef this) * WAVE_HEAVE_GAIN,
            wave_phase := 0\<rparr>)
         else do {
           let boat_speed = vx (velocity_ef this) * sin (radians wave_heading)
                          + vy (velocity_ef this) * cos (radians wave_heading);
           let apparent_wave_distance = (wave_speed sitl - boat_speed) * delta_time;
           waves_passed \<leftarrow> fdiv apparent_wave_distance (wave_length sitl);
           let apparent_wave_phase_change = waves_passed * M_2PI;
           let phase = wrap_2PI (wave_phase this + apparent_wave_phase_change);
           wave_number \<leftarrow> fdiv M_2PI (wave_length sitl);
           let wave_slope = (wave_amplitude * 0.5) * wave_number * cos phase;
           let wave_angle = arctan wave_slope;
           let heading_dif = wave_heading - y;
           let angle_error_x = (sin heading_dif * wave_angle) - r;
           let angle_error_y = (cos heading_dif * wave_angle) - p;
           Some (this
             \<lparr>wave_gyro := \<lparr>vx = angle_error_x * WAVE_ANGLE_GAIN,
                            vy = angle_error_y * WAVE_ANGLE_GAIN,
                            vz = 0\<rparr>,
              wave_heave := (if wave_enable sitl = 2
                             then (wave_slope - vz (velocity_ef this)) * WAVE_HEAVE_GAIN
                             else 0),
              wave_phase := phase\<rparr>)
         })"

subsection \<open>Heel\<close>

definition get_heel_angular_acceleration :: "SITL_params \<Rightarrow> real \<Rightarrow> real \<Rightarrow> real \<Rightarrow> real" where
  "get_heel_angular_acceleration sitl force_heel current_roll_angle_bf_rad
       current_roll_rate_rad_per_s =
     (if \<not> soft_armed sitl then 0
      else
        let vertical_ce = 200;
            keel_mass = 2.5;
            keel_depth = 0.5;
            keel_chord = 0.1;
            g = 1;
            overturning_moment = force_heel * vertical_ce * cos current_roll_angle_bf_rad;
            righting_moment = - 1 * keel_mass * g * keel_depth * sin current_roll_angle_bf_rad;
            kDamping = 1;
            damping_moment =
              - 1 * sq keel_depth * keel_chord * current_roll_rate_rad_per_s * kDamping;
            resultant = overturning_moment + righting_moment + damping_moment;
            kMomentOfInertia = 300;
            moment_of_inertia = keel_mass * sq keel_depth * kMomentOfInertia
        in resultant / moment_of_inertia)"

subsection \<open>The sail\<close>

definition get_mainsail_angle_bf :: "SITL_params \<Rightarrow> sitl_input \<Rightarrow> real option" where
  \<comment> \<open>\<open>None\<close> is the failed \<open>assert\<close>\<close>
  "get_mainsail_angle_bf sitl input =
     (if sail_type sitl = directly_actuated_wing
      then Some (constrain_float
                   ((of_int (servos input DIRECT_WING_SERVO_CH) - 1500) / 500 * 90) (- 90) 90)
      else if sail_type sitl = mainsail_with_sheet
      then Some (constrain_float
                   ((of_int (servos input MAINSAIL_SERVO_CH) - 1000) / 1000 * 90) 0 90)
      else None)"

definition sail_aoa_deg :: "SITL_params \<Rightarrow> real \<Rightarrow> real \<Rightarrow> real" where
  \<comment> \<open>\<open>update\<close>, first variant: the statements that set \<open>aoa_deg\<close>\<close>
  "sail_aoa_deg sitl wind_apparent_dir_bf_signed mainsail_angle_bf =
     (if sail_type sitl = directly_actuated_wing
      then wind_apparent_dir_bf_signed - mainsail_angle_bf
      else max (\<bar>wind_apparent_dir_bf_signed\<bar> - mainsail_angle_bf) 0
             * signum wind_apparent_dir_bf_signed)"

definition sail_aoa_deg_alt ::
  "('m, 'o) collaborators \<Rightarrow> SITL_params \<Rightarrow> sitl_input \<Rightarrow> real \<Rightarrow> real" where
  \<comment> \<open>\<open>update\<close>, second variant: the statements that set \<open>aoa_deg\<close>, with the sail
      angle computed in place\<close>
  "sail_aoa_deg_alt c sitl input wind_apparent_dir_bf =
     (let wind_apparent_dir_bf_sign = (if is_negative c wind_apparent_dir_bf then - 1 else 1)
      in if sail_type sitl = directly_actuated_wing
         then
           let wing_angle_bf = constrain_float
                 ((of_int (servos input DIRECT_WING_SERVO_CH) - 1500) / 500 * 90) (- 90) 90
           in wind_apparent_dir_bf - wing_angle_bf
         else
           let mainsail_angle_bf = constrain_float
                 ((of_int (servos input MAINSAIL_SERVO_CH) - 1000) / 1000 * 90) 0 90
           in max (\<bar>wind_apparent_dir_bf\<bar> - mainsail_angle_bf) 0 * wind_apparent_dir_bf_sign)"

definition sail_force_bf :: "('m, 'o) Sailboat \<Rightarrow> real \<Rightarrow> real \<Rightarrow> real \<Rightarrow> real \<times> real" where
  \<comment> \<open>\<open>update\<close>, first variant: lift and drag rotated into the body frame; the result
      is \<open>(force_fwd, force_heel)\<close>\<close>
  "sail_force_bf this wind_apparent_speed_bf wind_apparent_dir_bf_signed aoa_deg =
     (let (lift_wf, drag_wf) = calc_lift_and_drag this wind_apparent_speed_bf aoa_deg;
          sin_rot_rad = sin (radians wind_apparent_dir_bf_signed);
          cos_rot_rad = cos (radians wind_apparent_dir_bf_signed);
          force_fwd = lift_wf * sin_rot_rad - drag_wf * cos_rot_rad;
          force_heel = lift_wf * cos_rot_rad + drag_wf * sin_rot_rad
      in (force_fwd, force_heel))"

definition sail_force_bf_alt ::
  "('m, 'o) Sailboat \<Rightarrow> real \<Rightarrow> real \<Rightarrow> real \<Rightarrow> real \<times> real" where
  \<comment> \<open>\<open>update\<close>, second variant: the drag term of the heel force is commented out\<close>
  "sail_force_bf_alt this wind_apparent_speed wind_apparent_dir_bf aoa_deg =
     (let (lift_wf, drag_wf) = calc_lift_and_drag_alt this wind_apparent_speed aoa_deg;
          sin_rot_rad = sin (radians wind_apparent_dir_bf);
          cos_rot_rad = cos (radians wind_apparent_dir_bf);
          force_fwd = (lift_wf * sin_rot_rad) - (drag_wf * cos_rot_rad);
          force_heel = (lift_wf * cos_rot_rad)
      in (force_fwd, force_heel))"

subsection \<open>Tide\<close>

definition tide_velocity_ef :: "('m, 'o) collaborators \<Rightarrow> SITL_params \<Rightarrow> Vector3f" where
  \<comment> \<open>\<open>update\<close>, both variants: the ``tide calcs''\<close>
  "tide_velocity_ef c sitl =
     (if soft_armed sitl \<and> \<not> is_zero c (tide_speed sitl)
      then Vector3f_default
        \<lparr>vx := - cos (radians (tide_direction sitl)) * tide_speed sitl,
         vy := - sin (radians (tide_direction sitl)) * tide_speed sitl,
         vz := 0\<rparr>
      else Vector3f_default)"

subsection \<open>One simulation step\<close>

definition Sailboat_init :: "string \<Rightarrow> ('m, 'o) Sailboat \<Rightarrow> ('m, 'o) Sailboat" where
  \<comment> \<open>the constructor of the first variant, on the object that \<open>Aircraft(frame_str)\<close>
      has built\<close>
  "Sailboat_init frame_str aircraft =
     aircraft
       \<lparr>steering_angle_max := 35,
        turning_circle := 1.8,
        sail_area := 1.5,
        mass := 4.0,
        motor_connected := (frame_str = ''sailboat-motor'')\<rparr>"

definition Sailboat_init_alt :: "string \<Rightarrow> ('m, 'o) Sailboat \<Rightarrow> ('m, 'o) Sailboat" where
  \<comment> \<open>the constructor of the second variant\<close>
  "Sailboat_init_alt frame_str aircraft =
     aircraft
       \<lparr>steering_angle_max := 35,
        turning_circle := 1.8,
        sail_area := 1.0,
        motor_connected := (frame_str = ''sailboat-motor'')\<rparr>"

record file_statics =
  \<comment> \<open>the two file-level variables of the first variant, and what \<open>printf\<close> has
      written\<close>
  last_print_time_s :: real
  update_time_s :: real
  printed :: "real list"

definition print_roll :: "file_statics \<Rightarrow> real \<Rightarrow> real \<Rightarrow> file_statics" where
  \<comment> \<open>\<open>update\<close>, first variant: \<open>update_time_s += delta_time\<close> and the roll printed
      once a second\<close>
  "print_roll g delta_time heelAngle_rad =
     (let g1 = g\<lparr>update_time_s := update_time_s g + delta_time\<rparr>
      in if update_time_s g1 - last_print_time_s g1 > 1
         then g1\<lparr>last_print_time_s := update_time_s g1,
                 printed := printed g1 @ [degrees heelAngle_rad]\<rparr>
         else g1)"

definition steering_input :: "sitl_input \<Rightarrow> real" where
  "steering_input input = 2 * ((of_int (servos input STEERING_SERVO_CH) - 1000) / 1000 - 0.5)"

definition throttle_force_of :: "('m, 'o) Sailboat \<Rightarrow> sitl_input \<Rightarrow> real" where
  "throttle_force_of this input =
     (if motor_connected this
      then
        let throttle_out = constrain_int16 (servos input THROTTLE_SERVO_CH) 1000 2000
        in of_int (throttle_out - 1500) * 0.1
      else 0)"

definition integrate_motion ::
  "('m, 'o) collaborators \<Rightarrow> SITL_params \<Rightarrow> real \<Rightarrow> real \<Rightarrow> real \<Rightarrow> real \<Rightarrow>
   ('m, 'o) Sailboat \<Rightarrow> ('m, 'o) Sailboat" where
  \<comment> \<open>\<open>update\<close>, both variants, from ``add in accel due to direction change'' to the
      new position vector; \<open>accel_x\<close> is \<open>accel_body.x\<close> after the division by the
      mass\<close>
  "integrate_motion c sitl accel_x yaw_rate speed delta_time this =
     (let accel_body1 = \<lparr>vx = accel_x, vy = 0 + radians yaw_rate * speed, vz = 0\<rparr>;
          (r, p, y) = to_euler c (dcm this);
          temp_dcm = from_euler c 0 0 y;
          accel_earth = (mul c temp_dcm accel_body1)\<lparr>vz := 0 + wave_heave this\<rparr>;
          accel_body2 = mul c (transposed c (dcm this))
                          (vec_add accel_earth \<lparr>vx = 0, vy = 0, vz = - GRAVITY_MSS\<rparr>);
          velocity_ef_water1 = vec_add (velocity_ef_water this) (vec_scale accel_earth delta_time);
          velocity_ef1 = vec_add velocity_ef_water1 (tide_velocity_ef c sitl);
          position1 = vec_add (position this) (vec_scale velocity_ef1 delta_time)
      in this
           \<lparr>accel_body := accel_body2,
            velocity_ef_water := velocity_ef_water1,
            velocity_ef := velocity_ef1,
            position := position1\<rparr>)"

text \<open>The time step \<open>frame_time_us * 1.0e-6f\<close> is written \<open>frame_time_us * 0.000001\<close>.\<close>

definition update_dynamics ::
  "('m, 'o) collaborators \<Rightarrow> SITL_params \<Rightarrow> sitl_input \<Rightarrow>
   file_statics \<times> ('m, 'o) Sailboat \<Rightarrow> (file_statics \<times> ('m, 'o) Sailboat) option" where
  \<comment> \<open>\<open>update\<close>, first variant, from its first statement to the new position vector\<close>
  "update_dynamics c sitl input st =
     do {
       let (g, this0) = st;
       let this1 = update_wind c input this0;
       let steering = steering_input input;
       let wind_apparent_ef = vec_sub (velocity_ef this1) (wind_ef this1);
       let wind_apparent_bf = mul_transpose c (dcm this1) wind_apparent_ef;
       let wind_apparent_dir_bf_signed =
             wrap_180 (degrees (atan2 (vy wind_apparent_bf) (vx wind_apparent_bf)));
       let wind_apparent_speed_bf =
             safe_sqrt (sq (vy wind_apparent_bf) + sq (vx wind_apparent_bf));
       let this2 = this1\<lparr>rpm_0 := wind_apparent_speed_bf,
                          airspeed_pitot := wind_apparent_speed_bf\<rparr>;
       mainsail_angle_bf \<leftarrow> get_mainsail_angle_bf sitl input;
       let aoa_deg = sail_aoa_deg sitl wind_apparent_dir_bf_signed mainsail_angle_bf;
       let (force_fwd, force_heel) =
             sail_force_bf this2 wind_apparent_speed_bf wind_apparent_dir_bf_signed aoa_deg;
       let delta_time = frame_time_us this2 * 0.000001;
       let velocity_body = mul c (transposed c (dcm this2)) (velocity_ef_water this2);
       let keel_ef = \<lparr>vx = 0, vy = 0, vz = 1\<rparr>;
       let keel_bf = mul_transpose c (dcm this2) keel_ef;
       let heelAngle_rad = wrap_PI (atan2 (vy keel_bf) (vz keel_bf));
       let speed = vx velocity_body;
       yaw_rate \<leftarrow> get_yaw_rate c this2 steering speed;
       let roll_rate = vx (gyro this2)
             - get_heel_angular_acceleration sitl force_heel heelAngle_rad (vx (gyro this2))
                 * delta_time;
       let gyro1 = vec_add \<lparr>vx = roll_rate, vy = 0, vz = radians yaw_rate\<rparr> (wave_gyro this2);
       let this3 = this2\<lparr>gyro := gyro1,
                          dcm := normalize c (rotate c (dcm this2) (vec_scale gyro1 delta_time))\<rparr>;
       let hullDragGain = 0.5;
       let hull_drag = sq speed * mass this3 * hullDragGain * signum speed;
       let throttle_force = throttle_force_of this3 input;
       accel_x \<leftarrow> fdiv ((throttle_force + force_fwd) - hull_drag) (mass this3);
       Some (print_roll g delta_time heelAngle_rad,
             integrate_motion c sitl accel_x yaw_rate speed delta_time this3)
     }"

definition update ::
  "('m, 'o) collaborators \<Rightarrow> SITL_params \<Rightarrow> sitl_input \<Rightarrow>
   file_statics \<times> ('m, 'o) Sailboat \<Rightarrow> (file_statics \<times> ('m, 'o) Sailboat) option" where
  \<comment> \<open>\<open>update\<close>, first variant. \<open>delta_time\<close> is read where the source reads it: after
      \<open>update_wind\<close>.\<close>
  "update c sitl input st =
     do {
       (g, this) \<leftarrow> update_dynamics c sitl input st;
       let delta_time = frame_time_us (update_wind c input (snd st)) * 0.000001;
       this' \<leftarrow> update_wave c sitl delta_time
                  (update_mag_field_bf c (time_advance c (update_position c this)));
       Some (g, this')
     }"

definition update_dynamics_alt ::
  "('m, 'o) collaborators \<Rightarrow> SITL_params \<Rightarrow> sitl_input \<Rightarrow> ('m, 'o) Sailboat \<Rightarrow>
   ('m, 'o) Sailboat option" where
  \<comment> \<open>\<open>update\<close>, second variant, from its first statement to the new position vector\<close>
  "update_dynamics_alt c sitl input this0 =
     do {
       let this1 = update_wind c input this0;
       let steering = steering_input input;
       let wind_apparent_ef = vec_sub (velocity_ef this1) (wind_ef this1);
       let wind_apparent_dir_ef = degrees (atan2 (vy wind_apparent_ef) (vx wind_apparent_ef));
       let wind_apparent_speed = safe_sqrt (sq (vx wind_apparent_ef) + sq (vy wind_apparent_ef));
       let (roll0, pitch0, yaw0) = to_euler c (dcm this1);
       let wind_apparent_dir_bf = wrap_180 (wind_apparent_dir_ef - degrees yaw0);
       let this2 = this1\<lparr>rpm_0 := wind_apparent_speed, airspeed_pitot := wind_apparent_speed\<rparr>;
       let aoa_deg = sail_aoa_deg_alt c sitl input wind_apparent_dir_bf;
       let (force_fwd, force_heel) =
             sail_force_bf_alt this2 wind_apparent_speed wind_apparent_dir_bf aoa_deg;
       let k_pitch = 0.05;
       let heel_angle = constrain_float (force_heel * k_pitch) (- 45) 45;
       let delta_time = frame_time_us this2 * 0.000001;
       let velocity_body = mul c (transposed c (dcm this2)) (velocity_ef_water this2);
       let speed = vx velocity_body;
       let speed_sign = (if is_negative c speed then - 1 else 1);
       yaw_rate \<leftarrow> get_yaw_rate c this2 steering speed;
       let gyro1 = vec_add \<lparr>vx = 0, vy = 0, vz = radians yaw_rate\<rparr> (wave_gyro this2);
       let dcm1 = normalize c (rotate c (dcm this2) (vec_scale gyro1 delta_time));
       let (roll1, pitch1, yaw1) = to_euler c dcm1;
       let dcm2 = normalize c (from_euler c (radians heel_angle) pitch1 yaw1);
       let this3 = this2\<lparr>gyro := gyro1, dcm := dcm2\<rparr>;
       let hull_drag = sq speed * 0.5 * speed_sign;
       let throttle_force = throttle_force_of this3 input;
       accel_x \<leftarrow> fdiv ((throttle_force + force_fwd) - hull_drag) (mass this3);
       Some (integrate_motion c sitl accel_x yaw_rate speed delta_time this3)
     }"

definition update_alt ::
  "('m, 'o) collaborators \<Rightarrow> SITL_params \<Rightarrow> sitl_input \<Rightarrow> ('m, 'o) Sailboat \<Rightarrow>
   ('m, 'o) Sailboat option" where
  "update_alt c sitl input this0 =
     do {
       this \<leftarrow> update_dynamics_alt c sitl input this0;
       let delta_time = frame_time_us (update_wind c input this0) * 0.000001;
       update_wave c sitl delta_time
         (update_mag_field_bf c (time_advance c (update_position c this)))
     }"

fun update_wave_seq ::
  "('m, 'o) collaborators \<Rightarrow> SITL_params \<Rightarrow> (real \<times> Vector3f \<times> 'm) list \<Rightarrow>
   ('m, 'o) Sailboat \<Rightarrow> ('m, 'o) Sailboat option" where
  \<comment> \<open>successive calls of \<open>update_wave\<close>; each call comes with its time step and with
      the velocity and attitude that the vehicle has by then\<close>
  "update_wave_seq c sitl [] this = Some this"
| "update_wave_seq c sitl ((delta_time, velocity, attitude) # calls) this =
     (case update_wave c sitl delta_time (this\<lparr>velocity_ef := velocity, dcm := attitude\<rparr>) of
        None \<Rightarrow> None
      | Some this' \<Rightarrow> update_wave_seq c sitl calls this')"

fun run ::
  "('m, 'o) collaborators \<Rightarrow> SITL_params \<Rightarrow> sitl_input list \<Rightarrow>
   file_statics \<times> ('m, 'o) Sailboat \<Rightarrow> (file_statics \<times> ('m, 'o) Sailboat) option" where
  \<comment> \<open>the caller's loop: one \<open>update\<close> for each control-input snapshot\<close>
  "run c sitl [] st = Some st"
| "run c sitl (input # inputs) st =
     (case update c sitl input st of None \<Rightarrow> None | Some st' \<Rightarrow> run c sitl inputs st')"

fun run_alt ::
  "('m, 'o) collaborators \<Rightarrow> SITL_params \<Rightarrow> sitl_input list \<Rightarrow> ('m, 'o) Sailboat \<Rightarrow>
   ('m, 'o) Sailboat option" where
  "run_alt c sitl [] this = Some this"
| "run_alt c sitl (input # inputs) this =
     (case update_alt c sitl input this of None \<Rightarrow> None
      | Some this' \<Rightarrow> run_alt c sitl inputs this')"

subsection \<open>An instance of the parameters\<close>

text \<open>
  For evaluating the model at concrete inputs: the tests of AP\_Math read as exact, the
  attitude kept as its three Euler angles, vectors left unrotated (the boat level and
  heading north), and a base class that changes nothing.
\<close>

type_synonym euler_angles = "real \<times> real \<times> real"

definition euler_rotate :: "euler_angles \<Rightarrow> Vector3f \<Rightarrow> euler_angles" where
  "euler_rotate m g = (fst m + vx g, fst (snd m) + vy g, snd (snd m) + vz g)"

definition level_collaborators :: "(euler_angles, unit) collaborators" where
  "level_collaborators =
     \<lparr>is_zero = is_zero_exact,
      is_negative = is_negative_exact,
      to_euler = id,
      from_euler = (\<lambda>roll pitch yaw. (roll, pitch, yaw)),
      rotate = euler_rotate,
      normalize = id,
      mul = (\<lambda>m v. v),
      mul_transpose = (\<lambda>m v. v),
      transposed = id,
      update_wind = (\<lambda>input this. this),
      update_position = id,
      time_advance = id,
      update_mag_field_bf = id\<rparr>"

definition aircraft_at_rest :: "(euler_angles, unit) Sailboat" where
  "aircraft_at_rest =
     \<lparr>steering_angle_max = 0, turning_circle = 0, sail_area = 0, motor_connected = False,
      mass = 1, frame_time_us = 1000,
      dcm = (0, 0, 0),
      gyro = Vector3f_default, accel_body = Vector3f_default,
      velocity_ef = Vector3f_default, velocity_ef_water = Vector3f_default,
      wind_ef = Vector3f_default, position = Vector3f_default,
      rpm_0 = 0, airspeed_pitot = 0,
      wave_gyro = Vector3f_default, wave_heave = 0, wave_phase = 0,
      aircraft_rest = ()\<rparr>"

definition boat_at_rest :: "(euler_angles, unit) Sailboat" where
  "boat_at_rest = Sailboat_init ''sailboat'' aircraft_at_rest"

definition boat_at_rest_alt :: "(euler_angles, unit) Sailboat" where
  "boat_at_rest_alt = Sailboat_init_alt ''sailboat'' aircraft_at_rest"

definition statics_at_start :: file_statics where
  "statics_at_start = \<lparr>last_print_time_s = 0, update_time_s = 0, printed = []\<rparr>"

definition sitl_swell :: SITL_params where
  \<comment> \<open>armed, waves with heave enabled, no tide\<close>
  "sitl_swell =
     \<lparr>wave_enable = 2, wave_direction = 0, wave_speed = 1, wave_length = 10, wave_amp = 1,
      tide_direction = 0, tide_speed = 0, sail_type = mainsail_with_sheet, soft_armed = True\<rparr>"

definition sitl_disarmed :: SITL_params where
  "sitl_disarmed = sitl_swell\<lparr>soft_armed := False\<rparr>"

definition centred_input :: sitl_input where
  \<comment> \<open>every channel at 1500: rudder amidships, sheet at 45 degrees\<close>
  "centred_input = \<lparr>servos = (\<lambda>ch. 1500)\<rparr>"

definition sheet_hauled_input :: sitl_input where
  \<comment> \<open>every channel at 1000: the sheet hauled in, sail angle 0\<close>
  "sheet_hauled_input = \<lparr>servos = (\<lambda>ch. 1000)\<rparr>"

section \<open>Properties\<close>

subsection \<open>Bounds on \<open>pi\<close>, sine and cosine\<close>

lemma sum_lessThan_9:
  fixes f :: "nat \<Rightarrow> real"
  shows "(\<Sum>m<9. f m) = f 0 + f 1 + f 2 + f 3 + f 4 + f 5 + f 6 + f 7 + f 8"
  by (simp add: eval_nat_numeral)

lemma sum_lessThan_8:
  fixes f :: "nat \<Rightarrow> real"
  shows "(\<Sum>m<8. f m) = f 0 + f 1 + f 2 + f 3 + f 4 + f 5 + f 6 + f 7"
  by (simp add: eval_nat_numeral)

lemma sin_coeff_values:
  "sin_coeff 1 = 1" "sin_coeff 2 = 0" "sin_coeff 3 = - 1 / 6"
  "sin_coeff 4 = 0" "sin_coeff 5 = 1 / 120" "sin_coeff 6 = 0" "sin_coeff 7 = - 1 / 5040"
  "sin_coeff 8 = 0" "sin_coeff (Suc 0) = 1"
  by (simp_all add: sin_coeff_def fact_numeral)

lemma cos_coeff_values:
  "cos_coeff 1 = 0" "cos_coeff 2 = - 1 / 2" "cos_coeff 3 = 0"
  "cos_coeff 4 = 1 / 24" "cos_coeff 5 = 0" "cos_coeff 6 = - 1 / 720" "cos_coeff 7 = 0"
  "cos_coeff (Suc 0) = 0"
  by (simp_all add: cos_coeff_def fact_numeral)

lemma sin_approx7:
  fixes a :: real
  shows "\<bar>sin a - (a - a^3/6 + a^5/120 - a^7/5040)\<bar> \<le> \<bar>a\<bar>^9 / 362880"
proof -
  have s: "(\<Sum>m<9. sin_coeff m * a ^ m) = a - a^3/6 + a^5/120 - a^7/5040"
    by (simp add: sum_lessThan_9 sin_coeff_values)
  have f: "fact 9 = (362880 :: real)"
    by (simp add: fact_numeral)
  have "\<bar>sin a - (\<Sum>m<9. sin_coeff m * a ^ m)\<bar> \<le> inverse (fact 9) * \<bar>a\<bar> ^ 9"
    by (rule Maclaurin_sin_bound)
  then show ?thesis
    unfolding s f by (simp add: inverse_eq_divide)
qed

lemma cos_approx6:
  fixes a :: real
  shows "\<bar>cos a - (1 - a^2/2 + a^4/24 - a^6/720)\<bar> \<le> \<bar>a\<bar>^8 / 40320"
proof -
  have s: "(\<Sum>m<8. cos_coeff m * a ^ m) = 1 - a^2/2 + a^4/24 - a^6/720"
    by (simp add: sum_lessThan_8 cos_coeff_values)
  have f: "fact 8 = (40320 :: real)"
    by (simp add: fact_numeral)
  obtain t where
    t: "cos a = (\<Sum>m<8. cos_coeff m * a ^ m) + (cos (t + 1/2 * real 8 * pi) / fact 8) * a ^ 8"
    using Maclaurin_cos_expansion [of a 8] by blast
  have "\<bar>cos a - (\<Sum>m<8. cos_coeff m * a ^ m)\<bar>
          = \<bar>cos (t + 1/2 * real 8 * pi)\<bar> * \<bar>a\<bar>^8 / 40320"
    unfolding t f by (simp add: abs_mult power_abs)
  also have "\<dots> \<le> 1 * \<bar>a\<bar>^8 / 40320"
    by (intro divide_right_mono mult_right_mono abs_cos_le_one) simp_all
  finally show ?thesis
    unfolding s by simp
qed

lemma sin_upper:
  fixes a :: real
  shows "sin a \<le> a - a^3/6 + a^5/120 - a^7/5040 + \<bar>a\<bar>^9 / 362880"
  using sin_approx7 [of a] by linarith

lemma sin_lower:
  fixes a :: real
  shows "a - a^3/6 + a^5/120 - a^7/5040 - \<bar>a\<bar>^9 / 362880 \<le> sin a"
  using sin_approx7 [of a] by linarith

lemma cos_upper:
  fixes a :: real
  shows "cos a \<le> 1 - a^2/2 + a^4/24 - a^6/720 + \<bar>a\<bar>^8 / 40320"
  using cos_approx6 [of a] by linarith

lemma cos_lower:
  fixes a :: real
  shows "1 - a^2/2 + a^4/24 - a^6/720 - \<bar>a\<bar>^8 / 40320 \<le> cos a"
  using cos_approx6 [of a] by linarith

text \<open>\<open>pi\<close> lies between 3.1415 and 3.1417: \<open>sin (pi / 6) = 1 / 2\<close>, and the sine is
  monotone there.\<close>

lemma pi_lower: "6283 / 2000 < pi"
proof -
  let ?a = "6283 / 12000 :: real"
  have "sin ?a \<le> ?a - ?a^3/6 + ?a^5/120 - ?a^7/5040 + \<bar>?a\<bar>^9 / 362880"
    by (rule sin_upper)
  also have "\<dots> < 1/2"
    by (simp add: power_divide)
  finally have "sin ?a < sin (pi/6)"
    by (simp add: sin_30)
  moreover have "- (pi/2) \<le> ?a" "?a \<le> pi/2" "- (pi/2) \<le> pi/6" "pi/6 \<le> pi/2"
    using pi_ge_two by simp_all
  ultimately have "?a < pi/6"
    using sin_mono_less_eq by blast
  then show ?thesis
    by simp
qed

lemma pi_upper: "pi < 31417 / 10000"
proof -
  let ?a = "31417 / 60000 :: real"
  have "1/2 < ?a - ?a^3/6 + ?a^5/120 - ?a^7/5040 - \<bar>?a\<bar>^9 / 362880"
    by (simp add: power_divide)
  also have "\<dots> \<le> sin ?a"
    by (rule sin_lower)
  finally have "sin (pi/6) < sin ?a"
    by (simp add: sin_30)
  moreover have "- (pi/2) \<le> ?a" "?a \<le> pi/2" "- (pi/2) \<le> pi/6" "pi/6 \<le> pi/2"
    using pi_ge_two by simp_all
  ultimately have "pi/6 < ?a"
    using sin_mono_less_eq by blast
  then show ?thesis
    by simp
qed

lemma cos_17_5_bounds:
  "95371 / 100000 < cos (7 * pi / 72) \<and> cos (7 * pi / 72) < 953721 / 1000000"
proof -
  let ?lo = "43981 / 144000 :: real"
  let ?hi = "219919 / 720000 :: real"
  have lo: "?lo < 7 * pi / 72"
    using pi_lower by simp
  have hi: "7 * pi / 72 < ?hi"
    using pi_upper by simp
  have pi3: "3 < pi"
    using pi_lower by simp
  have "cos (7 * pi / 72) < cos ?lo"
    using lo pi3 by (subst cos_mono_less_eq) simp_all
  also have "cos ?lo \<le> 1 - ?lo^2/2 + ?lo^4/24 - ?lo^6/720 + \<bar>?lo\<bar>^8 / 40320"
    by (rule cos_upper)
  also have "\<dots> < 953721 / 1000000"
    by (simp add: power_divide)
  finally have up: "cos (7 * pi / 72) < 953721 / 1000000" .
  have "95371 / 100000 < 1 - ?hi^2/2 + ?hi^4/24 - ?hi^6/720 - \<bar>?hi\<bar>^8 / 40320"
    by (simp add: power_divide)
  also have "\<dots> \<le> cos ?hi"
    by (rule cos_lower)
  also have "cos ?hi < cos (7 * pi / 72)"
    using hi pi3 by (subst cos_mono_less_eq) simp_all
  finally show ?thesis
    using up by simp
qed

lemma sin_17_5_pos: "0 < sin (7 * pi / 72)"
  by (rule sin_gt_zero) simp_all

lemma sin_ratio_35: "sin (7 * pi / 36) / sin (7 * pi / 72) = 2 * cos (7 * pi / 72)"
proof -
  have "sin (7 * pi / 36) = sin (2 * (7 * pi / 72))"
    by simp
  also have "\<dots> = 2 * sin (7 * pi / 72) * cos (7 * pi / 72)"
    by (rule sin_double)
  finally show ?thesis
    using sin_17_5_pos by simp
qed

lemma turn_circle_half_bounds:
  "34333 / 10000 < 1.8 * sin (7 * pi / 36) / sin (7 * pi / 72)
   \<and> 1.8 * sin (7 * pi / 36) / sin (7 * pi / 72) < 34334 / 10000"
proof -
  have "1.8 * sin (7 * pi / 36) / sin (7 * pi / 72)
          = 1.8 * (sin (7 * pi / 36) / sin (7 * pi / 72))"
    by simp
  also have "\<dots> = 3.6 * cos (7 * pi / 72)"
    unfolding sin_ratio_35 by simp
  finally show ?thesis
    using cos_17_5_bounds by simp
qed

lemma yaw_rate_bounds:
  fixes d :: real
  assumes "34333 / 10000 < d" "d < 34334 / 10000"
  shows "6674 / 100 < 360 / (pi * d / 2) \<and> 360 / (pi * d / 2) < 6676 / 100"
proof -
  have d0: "0 < d"
    using assms by simp
  have p0: "0 < pi * d"
    using d0 by simp
  have "pi * d < (31417 / 10000) * (34334 / 10000)"
    using pi_upper assms d0 by (intro mult_strict_mono) simp_all
  then have u: "pi * d < 10.7868"
    by simp
  have "(6283 / 2000) * (34333 / 10000) < pi * d"
    using pi_lower assms by (intro mult_strict_mono) simp_all
  then have l: "10.7857 < pi * d"
    by simp
  have "360 / (pi * d / 2) = 720 / (pi * d)"
    by simp
  moreover have "6674 / 100 < 720 / (pi * d)"
    using u p0 by (simp add: pos_less_divide_eq)
  moreover have "720 / (pi * d) < 6676 / 100"
    using l p0 by (simp add: pos_divide_less_eq)
  ultimately show ?thesis
    by simp
qed

subsection \<open>The wrapping helpers\<close>

lemma floor_remainder_range:
  fixes a m :: real
  assumes "0 < m"
  shows "0 \<le> a - m * of_int \<lfloor>a / m\<rfloor> \<and> a - m * of_int \<lfloor>a / m\<rfloor> < m"
proof -
  have "of_int \<lfloor>a / m\<rfloor> \<le> a / m"
    by (rule of_int_floor_le)
  then have 1: "of_int \<lfloor>a / m\<rfloor> * m \<le> a"
    using pos_le_divide_eq [OF assms, of "of_int \<lfloor>a / m\<rfloor>" a] by blast
  have "a / m < of_int \<lfloor>a / m\<rfloor> + 1"
    by linarith
  then have 2: "a < (of_int \<lfloor>a / m\<rfloor> + 1) * m"
    using pos_divide_less_eq [OF assms, of a "of_int \<lfloor>a / m\<rfloor> + 1"] by blast
  show ?thesis
    using 1 2 by (simp add: algebra_simps)
qed

lemma wrap_2PI_range: "0 \<le> wrap_2PI a \<and> wrap_2PI a < 2 * pi"
  using floor_remainder_range [of "2 * pi" a] by (simp add: wrap_2PI_def M_2PI_def)

lemma wrap_360_range: "0 \<le> wrap_360 a \<and> wrap_360 a < 360"
  using floor_remainder_range [of 360 a] by (simp add: wrap_360_def)

lemma wrap_180_range: "- 180 < wrap_180 a \<and> wrap_180 a \<le> 180"
  using wrap_360_range [of a] by (simp add: wrap_180_def Let_def)

lemma wrap_180_20: "wrap_180 20 = 20"
  by (simp add: wrap_180_def wrap_360_def)

lemma wrap_180_90: "wrap_180 90 = 90"
  by (simp add: wrap_180_def wrap_360_def)

lemma constrain_float_range:
  "low \<le> high \<Longrightarrow> low \<le> constrain_float amt low high \<and> constrain_float amt low high \<le> high"
  by (simp add: constrain_float_def)

subsection \<open>The instance\<close>

lemma level_is_zero: "is_zero level_collaborators v \<longleftrightarrow> v = 0"
  by (simp add: level_collaborators_def is_zero_exact_def)

lemma level_update_wind: "update_wind level_collaborators input this = this"
  by (simp add: level_collaborators_def)

lemma boat_at_rest_steering:
  "steering_angle_max boat_at_rest = 35" "turning_circle boat_at_rest = 1.8"
  by (simp_all add: boat_at_rest_def Sailboat_init_def)

lemma boat_at_rest_mass: "mass boat_at_rest = 4"
  by (simp add: boat_at_rest_def Sailboat_init_def)

lemma sail_area_init: "sail_area (Sailboat_init frame_str aircraft) = 3 / 2"
  by (simp add: Sailboat_init_def)

lemma sail_area_alt: "sail_area boat_at_rest_alt = 1"
  by (simp add: boat_at_rest_alt_def Sailboat_init_alt_def)

lemma centred_steering: "steering_input centred_input = 0"
  by (simp add: steering_input_def centred_input_def)

lemma sitl_swell_fields:
  "sail_type sitl_swell = mainsail_with_sheet" "wave_length sitl_swell = 10"
  "tide_speed sitl_swell = 0" "soft_armed sitl_swell"
  by (simp_all add: sitl_swell_def)

subsection \<open>Steering kinematics\<close>

text \<open>
  C6. With zero steering the turn circle is 0, and the yaw rate and the lateral
  acceleration are 0 whenever the steering or the speed is zero: each of these calls
  returns a value, so none of them divides by zero. The only fact used about the test
  \<open>is_zero\<close> is that it accepts 0.
\<close>

theorem steering_degenerate_inputs_give_zero:
  assumes "is_zero c 0"
  shows "get_turn_circle c this 0 = Some 0
       \<and> get_yaw_rate c this 0 speed = Some 0
       \<and> get_yaw_rate c this steering 0 = Some 0
       \<and> get_lat_accel c this 0 speed = Some 0
       \<and> get_lat_accel c this steering 0 = Some 0"
  using assms by (simp add: get_turn_circle_def get_yaw_rate_def get_lat_accel_def radians_def)

theorem steering_degenerate_inputs_give_zero_witness:
  "is_zero level_collaborators 0
   \<and> get_turn_circle level_collaborators boat_at_rest 0 = Some 0
   \<and> get_yaw_rate level_collaborators boat_at_rest 0 2 = Some 0
   \<and> get_yaw_rate level_collaborators boat_at_rest (1/2) 0 = Some 0
   \<and> get_lat_accel level_collaborators boat_at_rest 0 2 = Some 0
   \<and> get_lat_accel level_collaborators boat_at_rest (1/2) 0 = Some 0"
proof -
  have z: "is_zero level_collaborators 0"
    by (simp add: level_collaborators_def is_zero_exact_def)
  show ?thesis
    using z steering_degenerate_inputs_give_zero [OF z, of boat_at_rest 2 "1/2"] by simp
qed

lemma sin_steering_pos:
  fixes s :: real
  assumes "0 < s" "s \<le> 1"
  shows "0 < sin (radians (s * 35))"
proof -
  have "0 < radians (s * 35)"
    using assms by (simp add: radians_def)
  moreover have "s * (35 * pi / 180) \<le> 1 * (35 * pi / 180)"
    using assms by (intro mult_right_mono) simp_all
  then have "radians (s * 35) < pi"
    by (simp add: radians_def)
  ultimately show ?thesis
    by (rule sin_gt_zero)
qed

lemma sin_steering_nonzero:
  fixes steering :: real
  assumes "steering \<noteq> 0" "\<bar>steering\<bar> \<le> 1"
  shows "sin (radians (steering * 35)) \<noteq> 0"
proof (cases "0 < steering")
  case True
  then show ?thesis
    using assms sin_steering_pos [of steering] by simp
next
  case False
  then have "0 < - steering" "- steering \<le> 1"
    using assms by simp_all
  then have "0 < sin (radians (- steering * 35))"
    by (rule sin_steering_pos)
  moreover have "radians (- steering * 35) = - radians (steering * 35)"
    by (simp add: radians_def)
  ultimately show ?thesis
    by simp
qed

lemma turn_circle_of_steering:
  assumes z: "is_zero c 0"
    and a: "steering_angle_max this = 35"
    and t: "turning_circle this = 1.8"
    and n: "\<not> is_zero c steering"
    and r: "\<bar>steering\<bar> \<le> 1"
  shows "sin (radians (steering * 35)) \<noteq> 0
       \<and> get_turn_circle c this steering =
           Some (1.8 * sin (radians 35) / sin (radians (steering * 35)))"
proof -
  have "steering \<noteq> 0"
    using n z by auto
  then have "sin (radians (steering * 35)) \<noteq> 0"
    using r by (intro sin_steering_nonzero)
  then show ?thesis
    using n by (simp add: get_turn_circle_def fdiv_def a t)
qed

lemma turn_circle_scenario_value:
  "1.8 * sin (radians 35) / sin (radians 17.5) = 1.8 * sin (7 * pi / 36) / sin (7 * pi / 72)"
  by (simp add: radians_def)

lemma turn_circle_scenario:
  assumes z: "is_zero c 0"
    and a: "steering_angle_max this = 35"
    and t: "turning_circle this = 1.8"
    and n: "\<not> is_zero c (1 / 2)"
  shows "get_turn_circle c this (1 / 2) = Some (1.8 * sin (7 * pi / 36) / sin (7 * pi / 72))"
  using turn_circle_of_steering [OF z a t n] by (simp add: radians_def)

lemma yaw_rate_scenario:
  assumes z: "is_zero c 0"
    and a: "steering_angle_max this = 35"
    and t: "turning_circle this = 1.8"
    and n: "\<not> is_zero c (1 / 2)"
    and m: "\<not> is_zero c 2"
  shows "\<exists>yaw_rate. get_yaw_rate c this (1 / 2) 2 = Some yaw_rate
           \<and> 66.74 < yaw_rate \<and> yaw_rate < 66.76"
proof -
  define d :: real where "d = 1.8 * sin (7 * pi / 36) / sin (7 * pi / 72)"
  have g: "get_turn_circle c this (1 / 2) = Some d"
    unfolding d_def using z a t n by (rule turn_circle_scenario)
  have b: "34333 / 10000 < d \<and> d < 34334 / 10000"
    unfolding d_def by (rule turn_circle_half_bounds)
  have "0 < d"
    using b by linarith
  then have p: "pi * d / 2 \<noteq> 0"
    by simp
  have "get_yaw_rate c this (1 / 2) 2 = Some (360 / (pi * d / 2))"
    using n m p by (simp add: get_yaw_rate_def g fdiv_def)
  moreover have "6674 / 100 < 360 / (pi * d / 2) \<and> 360 / (pi * d / 2) < 6676 / 100"
    using b by (intro yaw_rate_bounds) simp_all
  ultimately show ?thesis
    by simp
qed

text \<open>
  C5, as amended. \<open>get_turn_circle\<close> returns 0 for zero steering, and for every steering
  in [-1, 1] that the test \<open>is_zero\<close> rejects it returns
  \<open>turning_circle * sin (steering_angle_max) / sin (steering * steering_angle_max)\<close>, the
  divisor being nonzero. With steering 0.5, a maximal steering angle of 35 degrees and a
  turning circle of 1.8 the result is \<open>1.8 * sin 35\<degree> / sin 17.5\<degree>\<close>, between 3.4333 and
  3.4334 m, and at 2 m/s the yaw rate lies between 66.74 and 66.76 degrees per second.
\<close>

theorem turn_circle_formula:
  assumes z: "is_zero c 0"
    and a: "steering_angle_max this = 35"
    and t: "turning_circle this = 1.8"
  shows "get_turn_circle c this 0 = Some 0
       \<and> (\<not> is_zero c steering \<and> \<bar>steering\<bar> \<le> 1 \<longrightarrow>
            sin (radians (steering * 35)) \<noteq> 0
            \<and> get_turn_circle c this steering =
                Some (1.8 * sin (radians 35) / sin (radians (steering * 35))))
       \<and> (\<not> is_zero c (1 / 2) \<longrightarrow>
            get_turn_circle c this (1 / 2) = Some (1.8 * sin (radians 35) / sin (radians 17.5))
            \<and> 3.4333 < 1.8 * sin (radians 35) / sin (radians 17.5)
            \<and> 1.8 * sin (radians 35) / sin (radians 17.5) < 3.4334)
       \<and> (\<not> is_zero c (1 / 2) \<and> \<not> is_zero c 2 \<longrightarrow>
            (\<exists>yaw_rate. get_yaw_rate c this (1 / 2) 2 = Some yaw_rate
               \<and> 66.74 < yaw_rate \<and> yaw_rate < 66.76))"
proof -
  have 1: "get_turn_circle c this 0 = Some 0"
    using z by (simp add: get_turn_circle_def)
  have 2: "sin (radians (steering * 35)) \<noteq> 0
            \<and> get_turn_circle c this steering =
                Some (1.8 * sin (radians 35) / sin (radians (steering * 35)))"
    if "\<not> is_zero c steering" "\<bar>steering\<bar> \<le> 1"
    using z a t that by (rule turn_circle_of_steering)
  have 3: "get_turn_circle c this (1 / 2) = Some (1.8 * sin (radians 35) / sin (radians 17.5))"
    if "\<not> is_zero c (1 / 2)"
    unfolding turn_circle_scenario_value using z a t that by (rule turn_circle_scenario)
  have 4: "3.4333 < 1.8 * sin (radians 35) / sin (radians 17.5)
            \<and> 1.8 * sin (radians 35) / sin (radians 17.5) < 3.4334"
    unfolding turn_circle_scenario_value using turn_circle_half_bounds by simp
  have 5: "\<exists>yaw_rate. get_yaw_rate c this (1 / 2) 2 = Some yaw_rate
               \<and> 66.74 < yaw_rate \<and> yaw_rate < 66.76"
    if "\<not> is_zero c (1 / 2)" "\<not> is_zero c 2"
    using z a t that by (rule yaw_rate_scenario)
  show ?thesis
    using 1 2 3 4 5 by blast
qed

theorem turn_circle_formula_witness:
  "is_zero level_collaborators 0
   \<and> steering_angle_max boat_at_rest = 35 \<and> turning_circle boat_at_rest = 1.8
   \<and> \<not> is_zero level_collaborators (1 / 2) \<and> \<not> is_zero level_collaborators 2
   \<and> \<bar>1 / 2 :: real\<bar> \<le> 1
   \<and> get_turn_circle level_collaborators boat_at_rest 0 = Some 0
   \<and> get_turn_circle level_collaborators boat_at_rest (1 / 2)
       = Some (1.8 * sin (radians 35) / sin (radians 17.5))
   \<and> 3.4333 < 1.8 * sin (radians 35) / sin (radians 17.5)
   \<and> 1.8 * sin (radians 35) / sin (radians 17.5) < 3.4334
   \<and> (\<exists>yaw_rate. get_yaw_rate level_collaborators boat_at_rest (1 / 2) 2 = Some yaw_rate
         \<and> 66.74 < yaw_rate \<and> yaw_rate < 66.76)"
  using turn_circle_formula [of level_collaborators boat_at_rest "1 / 2"]
  by (simp add: level_is_zero boat_at_rest_steering)

text \<open>
  The yaw rate of the scenario is not 66.9 to the digit given: it stays more than 0.14
  below.
\<close>

theorem yaw_rate_scenario_counterexample:
  "get_yaw_rate level_collaborators boat_at_rest (1 / 2) 2 \<noteq> None
   \<and> the (get_yaw_rate level_collaborators boat_at_rest (1 / 2) 2) < 66.76
   \<and> 0.14 < 66.9 - the (get_yaw_rate level_collaborators boat_at_rest (1 / 2) 2)"
proof -
  have "\<exists>yaw_rate. get_yaw_rate level_collaborators boat_at_rest (1 / 2) 2 = Some yaw_rate
           \<and> 66.74 < yaw_rate \<and> yaw_rate < 66.76"
    by (rule yaw_rate_scenario) (simp_all add: level_is_zero boat_at_rest_steering)
  then obtain yaw_rate where
    "get_yaw_rate level_collaborators boat_at_rest (1 / 2) 2 = Some yaw_rate"
    "66.74 < yaw_rate" "yaw_rate < 66.76"
    by blast
  then show ?thesis
    by simp
qed

subsection \<open>Lift and drag\<close>

lemma CL_at_20: "linear_interpolate 20 CL_curve = 1"
  by (simp add: linear_interpolate_def CL_curve_def)

lemma CD_at_20: "linear_interpolate 20 CD_curve = 1 / 5"
  by (simp add: linear_interpolate_def CD_curve_def)

lemma CL_at_90: "linear_interpolate 90 CL_curve = 0"
  by (simp add: linear_interpolate_def CL_curve_def)

lemma CD_at_90: "linear_interpolate 90 CD_curve = 39 / 20"
  by (simp add: linear_interpolate_def CD_curve_def)

lemma calc_alt_5_20: "calc_lift_and_drag_alt boat_at_rest_alt 5 20 = (25, 5)"
  by (simp add: calc_lift_and_drag_alt_def Let_def signum_def wrap_180_20 CL_at_20
      CD_at_20 sail_area_alt)

lemma calc_alt_1_90: "calc_lift_and_drag_alt boat_at_rest_alt 1 90 = (0, 39 / 20)"
  by (simp add: calc_lift_and_drag_alt_def Let_def signum_def wrap_180_90 CL_at_90
      CD_at_90 sail_area_alt)

lemma radians_90: "radians 90 = pi / 2"
  by (simp add: radians_def)

text \<open>
  C2, as amended. In the first variant \<open>calc_lift_and_drag\<close> computes the common
  coefficient \<open>k = 1/2 * 1.225 * v\<^sup>2 * sail_area\<close> and returns \<open>drag = cd(|a|) * k\<close> and
  \<open>lift = cl(|a|) * k * sign a\<close>, for the angle of attack \<open>a\<close> normalised to [-180, 180];
  with the constructor's sail area 1.5, a wind of 5 m/s and an angle of attack of 20
  degrees, \<open>k = 22.96875\<close>, the lift is 22.96875 N and the drag 4.59375 N. In the second
  variant the common coefficient is \<open>v * v * sail_area\<close>, without the factor
  \<open>1/2 * 1.225\<close>.
\<close>

theorem lift_and_drag_formula:
  "calc_lift_and_drag this v a =
     (linear_interpolate \<bar>wrap_180 a\<bar> CL_curve * (1 / 2 * 1.225 * v\<^sup>2 * sail_area this)
        * sgn (wrap_180 a),
      linear_interpolate \<bar>wrap_180 a\<bar> CD_curve * (1 / 2 * 1.225 * v\<^sup>2 * sail_area this))
   \<and> - 180 \<le> wrap_180 a \<and> wrap_180 a \<le> 180
   \<and> 1 / 2 * 1.225 * 5\<^sup>2 * sail_area (Sailboat_init frame_str aircraft) = 22.96875
   \<and> calc_lift_and_drag (Sailboat_init frame_str aircraft) 5 20 = (22.96875, 4.59375)
   \<and> calc_lift_and_drag_alt this v a =
     (linear_interpolate \<bar>wrap_180 a\<bar> CL_curve * (v * v * sail_area this) * sgn (wrap_180 a),
      linear_interpolate \<bar>wrap_180 a\<bar> CD_curve * (v * v * sail_area this))"
proof -
  have 1: "calc_lift_and_drag this v a =
     (linear_interpolate \<bar>wrap_180 a\<bar> CL_curve * (1 / 2 * 1.225 * v\<^sup>2 * sail_area this)
        * sgn (wrap_180 a),
      linear_interpolate \<bar>wrap_180 a\<bar> CD_curve * (1 / 2 * 1.225 * v\<^sup>2 * sail_area this))"
    by (simp add: calc_lift_and_drag_def Let_def sq_def signum_def power2_eq_square)
  have 2: "- 180 \<le> wrap_180 a \<and> wrap_180 a \<le> 180"
    using wrap_180_range [of a] by simp
  have 3: "1 / 2 * 1.225 * 5\<^sup>2 * sail_area (Sailboat_init frame_str aircraft)
             = (22.96875 :: real)"
    by (simp add: sail_area_init)
  have 4: "calc_lift_and_drag (Sailboat_init frame_str aircraft) 5 20 = (22.96875, 4.59375)"
    by (simp add: calc_lift_and_drag_def Let_def sq_def signum_def wrap_180_20 CL_at_20
        CD_at_20 sail_area_init)
  have 5: "calc_lift_and_drag_alt this v a =
     (linear_interpolate \<bar>wrap_180 a\<bar> CL_curve * (v * v * sail_area this) * sgn (wrap_180 a),
      linear_interpolate \<bar>wrap_180 a\<bar> CD_curve * (v * v * sail_area this))"
    by (simp add: calc_lift_and_drag_alt_def Let_def signum_def)
  show ?thesis
    using 1 2 3 4 5 by blast
qed

text \<open>
  The second variant, with its constructor's sail area 1.0, at 5 m/s and 20 degrees:
  lift 25 and drag 5, where \<open>cd * (1/2 * 1.225 * v\<^sup>2 * sail_area)\<close> is 3.0625.
\<close>

theorem lift_and_drag_quasi_units_counterexample:
  "calc_lift_and_drag_alt boat_at_rest_alt 5 20 = (25, 5)
   \<and> 1 / 2 * 1.225 * 5\<^sup>2 * sail_area boat_at_rest_alt = 15.3125
   \<and> snd (calc_lift_and_drag_alt boat_at_rest_alt 5 20)
       \<noteq> linear_interpolate \<bar>wrap_180 20\<bar> CD_curve
           * (1 / 2 * 1.225 * 5\<^sup>2 * sail_area boat_at_rest_alt)"
  by (simp add: calc_alt_5_20 sail_area_alt wrap_180_20 CD_at_20)

subsection \<open>The sail forces in the body frame\<close>

text \<open>
  C3, as amended. Lift and drag are resolved into the body frame by the rotation
  through the apparent-wind angle \<open>\<theta>\<close>: in both variants the forward force is
  \<open>lift * sin \<theta> - drag * cos \<theta>\<close>; the heel force is \<open>lift * cos \<theta> + drag * sin \<theta>\<close> in
  the first variant and \<open>lift * cos \<theta>\<close> in the second.
\<close>

theorem sail_force_resolution:
  "sail_force_bf this v w aoa =
     (fst (calc_lift_and_drag this v aoa) * sin (radians w)
        - snd (calc_lift_and_drag this v aoa) * cos (radians w),
      fst (calc_lift_and_drag this v aoa) * cos (radians w)
        + snd (calc_lift_and_drag this v aoa) * sin (radians w))
   \<and> sail_force_bf_alt this v w aoa =
     (fst (calc_lift_and_drag_alt this v aoa) * sin (radians w)
        - snd (calc_lift_and_drag_alt this v aoa) * cos (radians w),
      fst (calc_lift_and_drag_alt this v aoa) * cos (radians w))"
  by (simp add: sail_force_bf_def sail_force_bf_alt_def Let_def case_prod_beta)

text \<open>
  The second variant, sheet hauled in, wind of 1 m/s on the beam (90 degrees): the angle
  of attack is 90 degrees, lift 0 and drag 1.95; the heel force is 0, where
  \<open>lift * cos \<theta> + drag * sin \<theta>\<close> is 1.95.
\<close>

theorem heel_force_drag_term_counterexample:
  "sail_aoa_deg_alt level_collaborators sitl_swell sheet_hauled_input 90 = 90
   \<and> snd (sail_force_bf_alt boat_at_rest_alt 1 90 90) = 0
   \<and> fst (calc_lift_and_drag_alt boat_at_rest_alt 1 90) * cos (radians 90)
       + snd (calc_lift_and_drag_alt boat_at_rest_alt 1 90) * sin (radians 90) = 39 / 20"
proof -
  have "sail_aoa_deg_alt level_collaborators sitl_swell sheet_hauled_input 90 = 90"
    by (simp add: sail_aoa_deg_alt_def level_collaborators_def sitl_swell_def
        sheet_hauled_input_def is_negative_exact_def constrain_float_def Let_def)
  moreover have "snd (sail_force_bf_alt boat_at_rest_alt 1 90 90) = 0"
    by (simp add: sail_force_bf_alt_def calc_alt_1_90 radians_90)
  moreover have "fst (calc_lift_and_drag_alt boat_at_rest_alt 1 90) * cos (radians 90)
       + snd (calc_lift_and_drag_alt boat_at_rest_alt 1 90) * sin (radians 90) = 39 / 20"
    by (simp add: calc_alt_1_90 radians_90)
  ultimately show ?thesis
    by blast
qed

subsection \<open>The angle of attack of the sheeted sail\<close>

text \<open>
  C4. For the mainsail with sheet, the signed angle of attack is
  \<open>max (|w| - s) 0 * sign w\<close> for the apparent wind angle \<open>w\<close> and the sail angle \<open>s\<close>;
  the magnitude \<open>max (|w| - s) 0\<close> is never negative. With the sail angle that the
  servo gives (between 0 and 90), that magnitude is the absolute value of the result,
  and the second variant, whose sign is \<open>is_negative w ? -1 : 1\<close>, computes the same
  angle.
\<close>

theorem sheet_angle_of_attack:
  assumes "sail_type sitl = mainsail_with_sheet"
  shows "sail_aoa_deg sitl w s = max (\<bar>w\<bar> - s) 0 * sgn w
       \<and> 0 \<le> max (\<bar>w\<bar> - s) 0
       \<and> (get_mainsail_angle_bf sitl input = Some s \<longrightarrow>
            0 \<le> s \<and> s \<le> 90 \<and> \<bar>sail_aoa_deg sitl w s\<bar> = max (\<bar>w\<bar> - s) 0
            \<and> ((is_negative c w \<longleftrightarrow> w < 0) \<longrightarrow>
                  sail_aoa_deg_alt c sitl input w = max (\<bar>w\<bar> - s) 0 * sgn w))"
proof -
  have 1: "sail_aoa_deg sitl w s = max (\<bar>w\<bar> - s) 0 * sgn w"
    using assms by (simp add: sail_aoa_deg_def signum_def)
  have 2: "0 \<le> max (\<bar>w\<bar> - s) 0"
    by simp
  have 3: "0 \<le> s \<and> s \<le> 90 \<and> \<bar>sail_aoa_deg sitl w s\<bar> = max (\<bar>w\<bar> - s) 0
            \<and> ((is_negative c w \<longleftrightarrow> w < 0) \<longrightarrow>
                  sail_aoa_deg_alt c sitl input w = max (\<bar>w\<bar> - s) 0 * sgn w)"
    if m: "get_mainsail_angle_bf sitl input = Some s"
  proof -
    have s: "s = constrain_float
                   ((of_int (servos input MAINSAIL_SERVO_CH) - 1000) / 1000 * 90) 0 90"
      using m assms by (simp add: get_mainsail_angle_bf_def)
    have r: "0 \<le> s \<and> s \<le> 90"
      unfolding s using constrain_float_range [of 0 90] by simp
    have a: "\<bar>sail_aoa_deg sitl w s\<bar> = max (\<bar>w\<bar> - s) 0"
      unfolding 1 using r by (cases "w = 0") (auto simp add: abs_mult sgn_if max_def)
    have b: "sail_aoa_deg_alt c sitl input w = max (\<bar>w\<bar> - s) 0 * sgn w"
      if "is_negative c w \<longleftrightarrow> w < 0"
      using that assms r unfolding s
      by (auto simp add: sail_aoa_deg_alt_def Let_def sgn_if max_def)
    show ?thesis
      using r a b by blast
  qed
  show ?thesis
    using 1 2 3 by blast
qed

theorem sheet_angle_of_attack_witness:
  "sail_type sitl_swell = mainsail_with_sheet
   \<and> sail_aoa_deg sitl_swell 40 20 = 20
   \<and> get_mainsail_angle_bf sitl_swell centred_input = Some 45
   \<and> sail_aoa_deg sitl_swell (- 60) 45 = - 15
   \<and> sail_aoa_deg_alt level_collaborators sitl_swell centred_input (- 60) = - 15"
proof -
  have m: "sail_type sitl_swell = mainsail_with_sheet"
    by (simp add: sitl_swell_fields)
  have g: "get_mainsail_angle_bf sitl_swell centred_input = Some 45"
    by (simp add: get_mainsail_angle_bf_def sitl_swell_fields centred_input_def
        constrain_float_def)
  have n: "is_negative level_collaborators (- 60) \<longleftrightarrow> (- 60 :: real) < 0"
    by (simp add: level_collaborators_def is_negative_exact_def)
  show ?thesis
    using m g n
      sheet_angle_of_attack [OF m, of 40 20 centred_input level_collaborators]
      sheet_angle_of_attack [OF m, of "- 60" 45 centred_input level_collaborators]
    by simp
qed

subsection \<open>Heel\<close>

lemma heel_acceleration_armed_example:
  "get_heel_angular_acceleration sitl_swell 1 0 0 = 16 / 15"
  by (simp add: get_heel_angular_acceleration_def sitl_swell_def sq_def)

text \<open>
  C9. While the vehicle is not soft-armed, \<open>get_heel_angular_acceleration\<close> returns 0
  for every heel force, roll angle and roll rate.
\<close>

theorem heel_acceleration_zero_when_disarmed:
  assumes "\<not> soft_armed sitl"
  shows "get_heel_angular_acceleration sitl force_heel roll_angle roll_rate = 0"
  using assms by (simp add: get_heel_angular_acceleration_def)

theorem heel_acceleration_zero_when_disarmed_witness:
  "\<not> soft_armed sitl_disarmed
   \<and> get_heel_angular_acceleration sitl_disarmed 100 (1/10) (1/5) = 0"
proof -
  have d: "\<not> soft_armed sitl_disarmed"
    by (simp add: sitl_disarmed_def)
  show ?thesis
    using d heel_acceleration_zero_when_disarmed [OF d, of 100 "1/10" "1/5"] by simp
qed

subsection \<open>Waves\<close>

lemma update_wave_phase:
  assumes "update_wave c sitl delta_time this = Some this'"
  shows "0 \<le> wave_phase this' \<and> wave_phase this' < 2 * pi"
  using assms wrap_2PI_range
  by (auto simp add: update_wave_def Let_def case_prod_beta split: if_splits Option.bind_splits)

lemma update_wave_returns:
  assumes "wave_length sitl \<noteq> 0"
  shows "\<exists>this'. update_wave c sitl delta_time this = Some this'"
  using assms by (simp add: update_wave_def Let_def case_prod_beta fdiv_def)

lemma update_wave_phase_value:
  assumes "wave_length sitl \<noteq> 0" "update_wave c sitl delta_time this = Some this'"
  shows "wave_phase this' =
           (if wave_enable sitl = 0 \<or> \<not> soft_armed sitl \<or> is_zero c (wave_amp sitl) then 0
            else wrap_2PI (wave_phase this
                   + ((wave_speed sitl
                        - (vx (velocity_ef this) * sin (radians (wave_direction sitl))
                           + vy (velocity_ef this) * cos (radians (wave_direction sitl))))
                       * delta_time / wave_length sitl) * (2 * pi)))"
  using assms
  by (auto simp add: update_wave_def Let_def case_prod_beta fdiv_def M_2PI_def split: if_splits)

lemma update_wave_seq_phase:
  assumes "wave_length sitl \<noteq> 0"
  shows "\<exists>this'. update_wave_seq c sitl calls this = Some this'
           \<and> (calls \<noteq> [] \<or> (0 \<le> wave_phase this \<and> wave_phase this < 2 * pi) \<longrightarrow>
                0 \<le> wave_phase this' \<and> wave_phase this' < 2 * pi)"
proof (induction calls arbitrary: this)
  case Nil
  show ?case by simp
next
  case (Cons call calls)
  obtain delta_time velocity attitude where call: "call = (delta_time, velocity, attitude)"
    by (cases call)
  obtain this1 where
    1: "update_wave c sitl delta_time (this\<lparr>velocity_ef := velocity, dcm := attitude\<rparr>)
          = Some this1"
    using update_wave_returns [OF assms] by blast
  have r1: "0 \<le> wave_phase this1 \<and> wave_phase this1 < 2 * pi"
    using 1 by (rule update_wave_phase)
  obtain this' where 2: "update_wave_seq c sitl calls this1 = Some this'"
    and r: "0 \<le> wave_phase this' \<and> wave_phase this' < 2 * pi"
    using Cons.IH [of this1] r1 by blast
  show ?case
    using 1 2 r by (simp add: call)
qed

lemma update_phase:
  assumes "update c sitl input st = Some (g', this')"
  shows "0 \<le> wave_phase this' \<and> wave_phase this' < 2 * pi"
  using assms
  by (auto simp add: update_def Let_def case_prod_beta split: Option.bind_splits
      dest: update_wave_phase)

lemma update_alt_phase:
  assumes "update_alt c sitl input this = Some this'"
  shows "0 \<le> wave_phase this' \<and> wave_phase this' < 2 * pi"
  using assms
  by (auto simp add: update_alt_def Let_def split: Option.bind_splits dest: update_wave_phase)

text \<open>After any run of at least one whole step that returns, the phase is wrapped.\<close>

lemma run_phase:
  assumes "run c sitl inputs st = Some (g', this')" "inputs \<noteq> []"
  shows "0 \<le> wave_phase this' \<and> wave_phase this' < 2 * pi"
  using assms
proof (induction inputs arbitrary: st)
  case Nil
  then show ?case by simp
next
  case (Cons input inputs)
  from Cons.prems(1) obtain g1 this1 where
    1: "update c sitl input st = Some (g1, this1)"
    and 2: "run c sitl inputs (g1, this1) = Some (g', this')"
    by (auto split: option.splits)
  show ?case
  proof (cases "inputs = []")
    case True
    then show ?thesis
      using 1 2 update_phase [OF 1] by simp
  next
    case False
    then show ?thesis
      using Cons.IH [OF 2] by simp
  qed
qed

lemma run_alt_phase:
  assumes "run_alt c sitl inputs this = Some this'" "inputs \<noteq> []"
  shows "0 \<le> wave_phase this' \<and> wave_phase this' < 2 * pi"
  using assms
proof (induction inputs arbitrary: this)
  case Nil
  then show ?case by simp
next
  case (Cons input inputs)
  from Cons.prems(1) obtain this1 where
    1: "update_alt c sitl input this = Some this1"
    and 2: "run_alt c sitl inputs this1 = Some this'"
    by (auto split: option.splits)
  show ?case
  proof (cases "inputs = []")
    case True
    then show ?thesis
      using 1 2 update_alt_phase [OF 1] by simp
  next
    case False
    then show ?thesis
      using Cons.IH [OF 2] by simp
  qed
qed

text \<open>
  C8. When waves are disabled, the amplitude is zero or the vehicle is not soft-armed,
  \<open>update_wave\<close> sets the gyro disturbance to \<open>(-roll, -pitch, 0)\<close> times the gain 1, the
  heave to minus the vertical earth-frame velocity times the gain 1, and the phase to 0.
  The gyro disturbance is the same whatever the phase was before. The only fact used
  about the test \<open>is_zero\<close> is that it accepts 0.
\<close>

theorem wave_disabled_path:
  assumes off: "wave_enable sitl = 0 \<or> wave_amp sitl = 0 \<or> \<not> soft_armed sitl"
    and z: "is_zero c 0"
    and e: "to_euler c (dcm this) = (r, p, y)"
  shows "update_wave c sitl delta_time this =
           Some (this\<lparr>wave_gyro := \<lparr>vx = - r * 1, vy = - p * 1, vz = 0 * 1\<rparr>,
                      wave_heave := - vz (velocity_ef this) * 1,
                      wave_phase := 0\<rparr>)
       \<and> map_option wave_gyro (update_wave c sitl delta_time (this\<lparr>wave_phase := phase\<rparr>))
           = Some \<lparr>vx = - r, vy = - p, vz = 0\<rparr>"
  using off z e
  by (auto simp add: update_wave_def vec_scale_def WAVE_ANGLE_GAIN_def WAVE_HEAVE_GAIN_def)

theorem wave_disabled_path_witness:
  "\<not> soft_armed sitl_disarmed
   \<and> is_zero level_collaborators 0
   \<and> to_euler level_collaborators (dcm (boat_at_rest\<lparr>dcm := (1 / 10, 1 / 5, 3)\<rparr>))
       = (1 / 10, 1 / 5, 3)
   \<and> map_option wave_gyro
        (update_wave level_collaborators sitl_disarmed (1 / 100)
           (boat_at_rest\<lparr>dcm := (1 / 10, 1 / 5, 3), wave_phase := 2\<rparr>))
       = Some \<lparr>vx = - (1 / 10), vy = - (1 / 5), vz = 0\<rparr>
   \<and> map_option wave_phase
        (update_wave level_collaborators sitl_disarmed (1 / 100)
           (boat_at_rest\<lparr>dcm := (1 / 10, 1 / 5, 3)\<rparr>)) = Some 0"
proof -
  have off: "wave_enable sitl_disarmed = 0 \<or> wave_amp sitl_disarmed = 0
      \<or> \<not> soft_armed sitl_disarmed"
    by (simp add: sitl_disarmed_def)
  have z: "is_zero level_collaborators 0"
    by (simp add: level_collaborators_def is_zero_exact_def)
  have e: "to_euler level_collaborators (dcm (boat_at_rest\<lparr>dcm := (1 / 10, 1 / 5, 3)\<rparr>))
       = (1 / 10, 1 / 5, 3)"
    by (simp add: level_collaborators_def)
  have d: "\<not> soft_armed sitl_disarmed"
    by (simp add: sitl_disarmed_def)
  show ?thesis
    using d z e wave_disabled_path [OF off z e, of "1 / 100" 2]
    by simp
qed

text \<open>
  C7. With a wave length above 0, every call of \<open>update_wave\<close> returns, and the wave
  phase it leaves lies in [0, 2\<pi>): on the enabled path it is the old phase plus
  \<open>((wave_speed - boat_speed) * delta_time / wave_length) * 2\<pi>\<close>, wrapped; on the
  disabled path it is 0. The same holds after any number of successive calls, whatever
  the time steps, velocities and attitudes are.
\<close>

theorem wave_phase_stays_wrapped:
  assumes "0 < wave_length sitl"
  shows "(\<exists>this'. update_wave c sitl delta_time this = Some this'
           \<and> wave_phase this' =
               (if wave_enable sitl = 0 \<or> \<not> soft_armed sitl \<or> is_zero c (wave_amp sitl) then 0
                else wrap_2PI (wave_phase this
                       + ((wave_speed sitl
                            - (vx (velocity_ef this) * sin (radians (wave_direction sitl))
                               + vy (velocity_ef this) * cos (radians (wave_direction sitl))))
                           * delta_time / wave_length sitl) * (2 * pi)))
           \<and> 0 \<le> wave_phase this' \<and> wave_phase this' < 2 * pi)
       \<and> (\<exists>this'. update_wave_seq c sitl calls this = Some this'
             \<and> (calls \<noteq> [] \<longrightarrow> 0 \<le> wave_phase this' \<and> wave_phase this' < 2 * pi))"
proof -
  have n: "wave_length sitl \<noteq> 0"
    using assms by simp
  obtain this1 where 1: "update_wave c sitl delta_time this = Some this1"
    using update_wave_returns [OF n] by blast
  have a: "\<exists>this'. update_wave c sitl delta_time this = Some this'
           \<and> wave_phase this' =
               (if wave_enable sitl = 0 \<or> \<not> soft_armed sitl \<or> is_zero c (wave_amp sitl) then 0
                else wrap_2PI (wave_phase this
                       + ((wave_speed sitl
                            - (vx (velocity_ef this) * sin (radians (wave_direction sitl))
                               + vy (velocity_ef this) * cos (radians (wave_direction sitl))))
                           * delta_time / wave_length sitl) * (2 * pi)))
           \<and> 0 \<le> wave_phase this' \<and> wave_phase this' < 2 * pi"
    using 1 update_wave_phase [OF 1] update_wave_phase_value [OF n 1] by blast
  have b: "\<exists>this'. update_wave_seq c sitl calls this = Some this'
             \<and> (calls \<noteq> [] \<longrightarrow> 0 \<le> wave_phase this' \<and> wave_phase this' < 2 * pi)"
    using update_wave_seq_phase [OF n, of c calls this] by blast
  show ?thesis
    using a b by blast
qed

theorem wave_phase_stays_wrapped_witness:
  "0 < wave_length sitl_swell
   \<and> (\<exists>this'. update_wave level_collaborators sitl_swell (1 / 100)
                 (boat_at_rest\<lparr>wave_phase := 7\<rparr>) = Some this'
         \<and> 0 \<le> wave_phase this' \<and> wave_phase this' < 2 * pi)
   \<and> (\<exists>this'. update_wave_seq level_collaborators sitl_swell
                 [(1 / 100, Vector3f_default, (0, 0, 0)), (1 / 50, Vector3f_default, (0, 0, 1))]
                 (boat_at_rest\<lparr>wave_phase := 7\<rparr>) = Some this'
         \<and> 0 \<le> wave_phase this' \<and> wave_phase this' < 2 * pi)"
proof -
  have h: "0 < wave_length sitl_swell"
    by (simp add: sitl_swell_def)
  show ?thesis
    using h wave_phase_stays_wrapped [OF h, of level_collaborators "1 / 100"
        "boat_at_rest\<lparr>wave_phase := 7\<rparr>"
        "[(1 / 100, Vector3f_default, (0, 0, 0)), (1 / 50, Vector3f_default, (0, 0, 1))]"]
    by blast
qed

subsection \<open>Tide\<close>

lemma integrate_motion_velocity:
  "velocity_ef (integrate_motion c sitl accel_x yaw_rate speed delta_time this) =
     vec_add (velocity_ef_water (integrate_motion c sitl accel_x yaw_rate speed delta_time this))
       (tide_velocity_ef c sitl)"
  by (simp add: integrate_motion_def Let_def case_prod_beta)

lemma update_dynamics_velocity:
  assumes "update_dynamics c sitl input st = Some (g', this')"
  shows "velocity_ef this' = vec_add (velocity_ef_water this') (tide_velocity_ef c sitl)"
  using assms
  by (auto simp add: update_dynamics_def Let_def case_prod_beta integrate_motion_velocity
      split: Option.bind_splits)

lemma update_dynamics_alt_velocity:
  assumes "update_dynamics_alt c sitl input this = Some this'"
  shows "velocity_ef this' = vec_add (velocity_ef_water this') (tide_velocity_ef c sitl)"
  using assms
  by (auto simp add: update_dynamics_alt_def Let_def case_prod_beta integrate_motion_velocity
      split: Option.bind_splits)

lemma update_dynamics_returns:
  assumes "sail_type sitl = mainsail_with_sheet \<or> sail_type sitl = directly_actuated_wing"
    and "is_zero c (steering_input input)"
    and "mass (update_wind c input this) \<noteq> 0"
  shows "\<exists>g' this'. update_dynamics c sitl input (g, this) = Some (g', this')"
  using assms
  by (auto simp add: update_dynamics_def Let_def case_prod_beta get_mainsail_angle_bf_def
      get_yaw_rate_def fdiv_def)

lemma update_dynamics_alt_returns:
  assumes "is_zero c (steering_input input)"
    and "mass (update_wind c input this) \<noteq> 0"
  shows "\<exists>this'. update_dynamics_alt c sitl input this = Some this'"
  using assms
  by (auto simp add: update_dynamics_alt_def Let_def case_prod_beta get_yaw_rate_def fdiv_def)

lemma tide_velocity_armed_example:
  "tide_velocity_ef level_collaborators (sitl_swell\<lparr>tide_speed := 2\<rparr>)
     = \<lparr>vx = - 2, vy = 0, vz = 0\<rparr>"
  by (simp add: tide_velocity_ef_def level_is_zero sitl_swell_def radians_def
      Vector3f_default_def)

text \<open>
  C10. The tide velocity that a step adds onto the water-relative velocity has the
  vertical component 0. When the vehicle is not soft-armed or the tide speed is zero, it
  is the zero vector, and the total earth-frame velocity that the step writes equals the
  water-relative velocity. Both variants; the velocities are those at the end of the
  source's own statements, before the base class is called. The only fact used about
  the test \<open>is_zero\<close> is that it accepts 0.
\<close>

theorem tide_velocity_horizontal_and_gated:
  assumes z: "is_zero c 0"
  shows "vz (tide_velocity_ef c sitl) = 0
       \<and> (update_dynamics c sitl input st = Some (g', this') \<longrightarrow>
            velocity_ef this' = vec_add (velocity_ef_water this') (tide_velocity_ef c sitl))
       \<and> (update_dynamics_alt c sitl input that = Some that' \<longrightarrow>
            velocity_ef that' = vec_add (velocity_ef_water that') (tide_velocity_ef c sitl))
       \<and> (\<not> soft_armed sitl \<or> tide_speed sitl = 0 \<longrightarrow>
            tide_velocity_ef c sitl = \<lparr>vx = 0, vy = 0, vz = 0\<rparr>
            \<and> (update_dynamics c sitl input st = Some (g', this') \<longrightarrow>
                 velocity_ef this' = velocity_ef_water this')
            \<and> (update_dynamics_alt c sitl input that = Some that' \<longrightarrow>
                 velocity_ef that' = velocity_ef_water that'))"
proof -
  have 1: "vz (tide_velocity_ef c sitl) = 0"
    by (simp add: tide_velocity_ef_def Vector3f_default_def)
  have 2: "velocity_ef this' = vec_add (velocity_ef_water this') (tide_velocity_ef c sitl)"
    if "update_dynamics c sitl input st = Some (g', this')"
    using that by (rule update_dynamics_velocity)
  have 3: "velocity_ef that' = vec_add (velocity_ef_water that') (tide_velocity_ef c sitl)"
    if "update_dynamics_alt c sitl input that = Some that'"
    using that by (rule update_dynamics_alt_velocity)
  have 4: "tide_velocity_ef c sitl = \<lparr>vx = 0, vy = 0, vz = 0\<rparr>"
    if "\<not> soft_armed sitl \<or> tide_speed sitl = 0"
    using that z by (auto simp add: tide_velocity_ef_def Vector3f_default_def)
  have 5: "vec_add v \<lparr>vx = 0, vy = 0, vz = 0\<rparr> = v" for v
    by (simp add: vec_add_def)
  show ?thesis
    using 1 2 3 4 5 by metis
qed

theorem tide_velocity_horizontal_and_gated_witness:
  "is_zero level_collaborators 0 \<and> tide_speed sitl_swell = 0
   \<and> tide_velocity_ef level_collaborators sitl_swell = \<lparr>vx = 0, vy = 0, vz = 0\<rparr>
   \<and> (\<exists>g' this'.
         update_dynamics level_collaborators sitl_swell centred_input
           (statics_at_start, boat_at_rest) = Some (g', this')
         \<and> velocity_ef this' = velocity_ef_water this')"
proof -
  have z: "is_zero level_collaborators 0"
    by (simp add: level_is_zero)
  obtain g' this' where
    1: "update_dynamics level_collaborators sitl_swell centred_input
          (statics_at_start, boat_at_rest) = Some (g', this')"
    using update_dynamics_returns [of sitl_swell level_collaborators centred_input boat_at_rest
        statics_at_start]
    by (auto simp add: sitl_swell_fields centred_steering level_update_wind boat_at_rest_mass
        level_is_zero)
  show ?thesis
    using z 1 tide_velocity_horizontal_and_gated [OF z, of sitl_swell centred_input
        "(statics_at_start, boat_at_rest)" g' this']
    by (simp add: sitl_swell_fields vec_add_def)
qed

subsection \<open>Determinism of the step\<close>

lemma update_dynamics_vehicle:
  "map_option snd (update_dynamics c sitl input (g1, this)) =
   map_option snd (update_dynamics c sitl input (g2, this))"
  by (simp add: update_dynamics_def Let_def case_prod_beta map_option_bind comp_def)

lemma update_vehicle:
  "map_option snd (update c sitl input (g1, this)) =
   map_option snd (update c sitl input (g2, this))"
proof (cases "update_dynamics c sitl input (g1, this)")
  case None
  then have "update_dynamics c sitl input (g2, this) = None"
    using update_dynamics_vehicle [of c sitl input g1 this g2] by simp
  with None show ?thesis
    by (simp add: update_def)
next
  case (Some a)
  obtain h1 t1 where a: "a = (h1, t1)"
    by (cases a)
  from Some a update_dynamics_vehicle [of c sitl input g1 this g2]
  obtain h2 where "update_dynamics c sitl input (g2, this) = Some (h2, t1)"
    by (cases "update_dynamics c sitl input (g2, this)") auto
  with Some a show ?thesis
    by (simp add: update_def Let_def map_option_bind comp_def)
qed

lemma run_vehicle:
  "map_option snd (run c sitl inputs (g1, this)) = map_option snd (run c sitl inputs (g2, this))"
proof (induction inputs arbitrary: g1 g2 this)
  case Nil
  show ?case by simp
next
  case (Cons input inputs)
  show ?case
  proof (cases "update c sitl input (g1, this)")
    case None
    then have "update c sitl input (g2, this) = None"
      using update_vehicle [of c sitl input g1 this g2] by simp
    with None show ?thesis
      by simp
  next
    case (Some a)
    obtain h1 t1 where a: "a = (h1, t1)"
      by (cases a)
    from Some a update_vehicle [of c sitl input g1 this g2]
    obtain h2 where "update c sitl input (g2, this) = Some (h2, t1)"
      by (cases "update c sitl input (g2, this)") auto
    with Some a Cons.IH [of h1 t1 h2] show ?thesis
      by simp
  qed
qed

lemma update_returns:
  assumes "sail_type sitl = mainsail_with_sheet \<or> sail_type sitl = directly_actuated_wing"
    and "is_zero c (steering_input input)"
    and "mass (update_wind c input this) \<noteq> 0"
    and "wave_length sitl \<noteq> 0"
  shows "\<exists>g' this'. update c sitl input (g, this) = Some (g', this')"
proof -
  obtain g1 this1 where 1: "update_dynamics c sitl input (g, this) = Some (g1, this1)"
    using update_dynamics_returns [OF assms(1-3)] by blast
  obtain this2 where
    "update_wave c sitl (frame_time_us (update_wind c input this) * 0.000001)
       (update_mag_field_bf c (time_advance c (update_position c this1))) = Some this2"
    using update_wave_returns [OF assms(4)] by blast
  with 1 show ?thesis
    by (simp add: update_def)
qed

text \<open>
  C1. The vehicle state after N steps is a function of the initial vehicle state, the
  sequence of control inputs and the environment alone. The only state of the file
  outside the vehicle object, the two file-level timers of the first variant, has no
  influence on it: two runs that start from the same vehicle state end in the same
  vehicle state, position, attitude and velocities included, whatever the timers were;
  and one run returns exactly when the other does. (The second variant has no state
  outside the object; its step \<open>update_alt\<close> is a function of the object, the input and
  the environment.)
\<close>

theorem update_steps_deterministic:
  "map_option snd (run c sitl inputs (g1, this)) = map_option snd (run c sitl inputs (g2, this))"
  by (rule run_vehicle)

theorem update_steps_deterministic_witness:
  "\<exists>g' this'.
     run level_collaborators sitl_swell [centred_input] (statics_at_start, boat_at_rest)
       = Some (g', this')
     \<and> map_option snd
         (run level_collaborators sitl_swell [centred_input]
            (statics_at_start\<lparr>update_time_s := 5\<rparr>, boat_at_rest)) = Some this'"
proof -
  obtain g' this' where
    1: "update level_collaborators sitl_swell centred_input (statics_at_start, boat_at_rest)
          = Some (g', this')"
    using update_returns [of sitl_swell level_collaborators centred_input boat_at_rest
        statics_at_start]
    by (auto simp add: sitl_swell_fields centred_steering level_update_wind boat_at_rest_mass
        level_is_zero)
  then have 2: "run level_collaborators sitl_swell [centred_input] (statics_at_start, boat_at_rest)
          = Some (g', this')"
    by simp
  have "map_option snd
         (run level_collaborators sitl_swell [centred_input]
            (statics_at_start\<lparr>update_time_s := 5\<rparr>, boat_at_rest))
      = map_option snd
         (run level_collaborators sitl_swell [centred_input] (statics_at_start, boat_at_rest))"
    by (rule update_steps_deterministic)
  also have "\<dots> = Some this'"
    unfolding 2 by simp
  finally show ?thesis
    using 2 by blast
qed

end
